theory Spec2Isabelle
  imports Main
begin

section \<open>Dashboard route loader and per-request application context\<close>

text \<open>
  A shallow embedding of \<^verbatim>\<open>apps/builder/app/routes/_ui.dashboard.tsx\<close> (the dashboard
  loader) and of the context builder that follows it in the same source file
  (\<^verbatim>\<open>extractAuthFromRequest\<close>, \<^verbatim>\<open>createAuthorizationContext\<close>,
  \<^verbatim>\<open>createUserPlanContext\<close>, \<^verbatim>\<open>createTrpcCache\<close>, \<^verbatim>\<open>createContext\<close>).

  The code is sequential asynchronous orchestration of services that live outside the
  file. Every imported service is a field of the record \<open>collaborators\<close>, a function
  that returns what its call contract returns. Every \<^verbatim>\<open>throw\<close> is a value of
  the datatype \<open>error\<close>, and every awaited call of an external service is written
  to a call trace, so that "the lookup is performed" and "nothing is fetched" are
  statements about the trace.
\<close>

subsection \<open>Platform values: URL, Headers, Request\<close>

text \<open>
  \<^verbatim>\<open>null\<close> and \<^verbatim>\<open>undefined\<close> of a \<^verbatim>\<open>string | null\<close> or
  \<^verbatim>\<open>string | undefined\<close> value are both \<open>None\<close>; the one place where the
  source tells them apart (\<^verbatim>\<open>===\<close> between a header value and the configured
  secret) is written out in \<open>strict_eq_null_undefined\<close>.
\<close>

record URL =
  pathname :: string
  origin :: string
  searchParams :: "(string \<times> string) list"

text \<open>\<^verbatim>\<open>URLSearchParams.get(name)\<close>: the first value of that name, or null.\<close>

definition searchParams_get :: "(string \<times> string) list \<Rightarrow> string \<Rightarrow> string option" where
  "searchParams_get ps name = map_of ps name"

text \<open>
  A \<^verbatim>\<open>Headers\<close> object is a finite map from header name to value. The platform
  matches names without regard to case; the keys of the model are the names as the
  lookups of this file spell them.
\<close>

definition headers_get :: "(string \<times> string) list \<Rightarrow> string \<Rightarrow> string option" where
  "headers_get hs name = map_of hs name"

definition headers_has :: "(string \<times> string) list \<Rightarrow> string \<Rightarrow> bool" where
  "headers_has hs name = (case map_of hs name of None \<Rightarrow> False | Some v \<Rightarrow> True)"

record request =
  url :: string
  headers :: "(string \<times> string) list"

text \<open>The operator \<^verbatim>\<open>a ?? b\<close>: \<open>b\<close> exactly when \<open>a\<close> is null or undefined.\<close>

definition nullish :: "'a option \<Rightarrow> 'a option \<Rightarrow> 'a option" where
  "nullish a b = (case a of None \<Rightarrow> b | Some v \<Rightarrow> Some v)"

text \<open>
  \<^verbatim>\<open>a === b\<close> for \<open>a\<close> of type \<^verbatim>\<open>string | null\<close> and \<open>b\<close> of type
  \<^verbatim>\<open>string | undefined\<close>: null is not strictly equal to undefined, so the
  comparison holds only between two equal strings.
\<close>

definition strict_eq_null_undefined :: "string option \<Rightarrow> string option \<Rightarrow> bool" where
  "strict_eq_null_undefined a b =
     (case a of None \<Rightarrow> False | Some v \<Rightarrow> (case b of None \<Rightarrow> False | Some w \<Rightarrow> v = w))"

text \<open>Truthiness of a \<^verbatim>\<open>string | undefined\<close>: undefined and the empty string are falsy.\<close>

definition truthy :: "string option \<Rightarrow> bool" where
  "truthy a = (case a of None \<Rightarrow> False | Some v \<Rightarrow> v \<noteq> [])"

subsection \<open>Errors and the call trace\<close>

datatype error =
    Response404
  | CrossOriginCookie
  | DestinationNotAllowed
  | Redirect string
  | CanvasAuthorizationError
  | ProjectOwnerNotFound string
  | ProjectNullUserId string
  | UserPlanFeaturesNotDefined

text \<open>
  \<open>Response404\<close> is \<^verbatim>\<open>throw new Response(null, {status: 404})\<close>; \<open>Redirect l\<close> is
  \<^verbatim>\<open>throw redirect(l)\<close>; \<open>CrossOriginCookie\<close> and \<open>DestinationNotAllowed\<close>
  are what \<^verbatim>\<open>preventCrossOriginCookie\<close> and \<^verbatim>\<open>allowedDestinations\<close> throw;
  the other four are the four \<^verbatim>\<open>throw new Error(...)\<close> of the file, with the
  value interpolated into the message as argument.
\<close>

datatype call =
    FindAuthenticatedUser
  | AuthenticatorIsAuthenticated
  | BuilderAuthenticatorIsAuthenticated
  | AuthorizationTokenFindUnique string
  | GetUserPlanFeatures string
  | ProjectFindMany string
  | ProjectFindManyByIds "string list"

type_synonym 'a io = "call list \<times> (error + 'a)"

definition return :: "'a \<Rightarrow> 'a io" where
  "return x = ([], Inr x)"

definition throw :: "error \<Rightarrow> 'a io" where
  "throw e = ([], Inl e)"

definition await :: "call \<Rightarrow> 'a \<Rightarrow> 'a io" where
  "await c x = ([c], Inr x)"

definition and_then :: "'a io \<Rightarrow> ('a \<Rightarrow> 'b io) \<Rightarrow> 'b io" where
  "and_then m f =
     (case m of
        (t, Inl e) \<Rightarrow> (t, Inl e)
      | (t, Inr x) \<Rightarrow> (case f x of (t', r) \<Rightarrow> (t @ t', r)))"

subsection \<open>Data of the application context\<close>

record session_data =
  userId :: string
  createdAt :: int

record extracted_auth =
  authToken :: "string option"
  sessionData :: "session_data option"
  isServiceCall :: bool

text \<open>
  The row \<^verbatim>\<open>{ project: { id, userId } }\<close> selected by
  \<^verbatim>\<open>prisma.authorizationToken.findUnique\<close>.
\<close>

record token_project =
  project_id :: string
  project_userId :: "string option"

record builder_url =
  projectId :: "string option"
  sourceOrigin :: string

text \<open>
  The capability \<^verbatim>\<open>isLoggedInToBuilder\<close> is a closure over the variable
  \<^verbatim>\<open>loginBloomFilter\<close> of the enclosing call, which it may assign. The closure is a
  function that takes the current content of that variable and the project id and
  returns the answer with the new content of the variable.
\<close>

type_synonym 'b capability = "'b option \<Rightarrow> string \<Rightarrow> bool \<times> 'b option"

record 'b authorization =
  userId :: "string option"
  sessionCreatedAt :: "int option"
  authToken :: "string option"
  isServiceCall :: bool
  ownerId :: "string option"
  isLoggedInToBuilder :: "'b capability option"

record deployment_env =
  BUILDER_ORIGIN :: string
  GITHUB_REF_NAME :: string
  GITHUB_SHA :: "string option"

record 'h deployment_context =
  deploymentTrpc :: 'h
  env :: deployment_env

record ('f, 'b, 'h) AppContext =
  authorization :: "'b authorization"
  domain :: 'h
  deployment :: "'h deployment_context"
  entri :: 'h
  userPlanFeatures :: "'f option"
  trpcCache :: "string \<rightharpoonup> int"
  postgrest :: 'h

subsection \<open>Configuration and collaborators\<close>

record server_env =
  TRPC_SERVER_API_TOKEN :: "string option"
  PROJECT_TEMPLATES :: "string list"
  PUBLISHER_HOST :: string
  IMAGE_BASE_URL :: string
  POSTGREST_URL :: string
  POSTGREST_API_KEY :: string

record static_env =
  GITHUB_REF_NAME :: "string option"
  GITHUB_SHA :: "string option"

record user =
  user_id :: string

record login_params =
  returnTo :: string

text \<open>
  Everything the file imports. \<open>URL_new\<close> is the platform's \<^verbatim>\<open>new URL(s)\<close>.
  \<open>preventCrossOriginCookie\<close> and \<open>allowedDestinations\<close> are \<open>True\<close> when the
  check returns and \<open>False\<close> when it throws. \<open>project_findMany c u\<close> and
  \<open>project_findManyByIds c ids\<close> are \<^verbatim>\<open>dashboardProjectCaller(c).findMany({userId: u})\<close>
  and \<^verbatim>\<open>dashboardProjectCaller(c).findManyByIds({projectIds: ids})\<close>. The type
  variables are the types this file never looks into: \<open>'f\<close> the plan features,
  \<open>'b\<close> the bloom filter, \<open>'h\<close> the client handles, \<open>'p\<close> the projects.
\<close>

record ('f, 'b, 'h, 'p) collaborators =
  isCanvas :: "request \<Rightarrow> bool"
  isBuilder :: "request \<Rightarrow> bool"
  isDashboard :: "request \<Rightarrow> bool"
  URL_new :: "string \<Rightarrow> URL"
  env :: server_env
  staticEnv :: static_env
  authenticator_isAuthenticated :: "request \<Rightarrow> session_data option"
  builderAuthenticator_isAuthenticated :: "request \<Rightarrow> session_data option"
  authorizationToken_findUnique :: "string \<Rightarrow> token_project option"
  readLoginSessionBloomFilter :: "request \<Rightarrow> 'b"
  bloomFilter_has :: "'b \<Rightarrow> string \<Rightarrow> bool"
  parseBuilderUrl :: "string \<Rightarrow> builder_url"
  getUserPlanFeatures :: "string \<Rightarrow> 'f"
  trpcSharedClient_domain :: 'h
  trpcSharedClient_deployment :: 'h
  entryApi :: 'h
  createClient :: "string \<Rightarrow> string \<Rightarrow> 'h"
  findAuthenticatedUser :: "request \<Rightarrow> user option"
  preventCrossOriginCookie :: "request \<Rightarrow> bool"
  allowedDestinations :: "request \<Rightarrow> string list \<Rightarrow> bool"
  loginPath :: "login_params \<Rightarrow> string"
  project_findMany :: "('f, 'b, 'h) AppContext \<Rightarrow> string \<Rightarrow> 'p list"
  project_findManyByIds :: "('f, 'b, 'h) AppContext \<Rightarrow> string list \<Rightarrow> 'p list"

subsection \<open>The context builder\<close>

definition extractAuthFromRequest ::
  "('f, 'b, 'h, 'p) collaborators \<Rightarrow> request \<Rightarrow> extracted_auth io" where
  "extractAuthFromRequest d request =
     (if isCanvas d request then throw CanvasAuthorizationError
      else
        let u = URL_new d (url request);
            authToken = nullish (searchParams_get (searchParams u) ''authToken'')
                          (nullish (headers_get (headers request) ''x-auth-token'') None)
        in and_then
             (if isBuilder d request
              then await BuilderAuthenticatorIsAuthenticated
                     (builderAuthenticator_isAuthenticated d request)
              else await AuthenticatorIsAuthenticated
                     (authenticator_isAuthenticated d request))
             (\<lambda>sessionData.
                let isServiceCall =
                      (headers_has (headers request) ''Authorization'' \<and>
                       strict_eq_null_undefined
                         (headers_get (headers request) ''Authorization'')
                         (TRPC_SERVER_API_TOKEN (env d)))
                in return \<lparr> extracted_auth.authToken = authToken,
                            sessionData = sessionData,
                            extracted_auth.isServiceCall = isServiceCall \<rparr>))"

text \<open>
  The token lookup of \<^verbatim>\<open>createAuthorizationContext\<close>: the body of
  \<^verbatim>\<open>if (authToken != null) { ... }\<close>, which yields the new value of \<^verbatim>\<open>ownerId\<close>.
\<close>

definition projectOwnerByToken ::
  "('f, 'b, 'h, 'p) collaborators \<Rightarrow> string \<Rightarrow> string io" where
  "projectOwnerByToken d token =
     and_then
       (await (AuthorizationTokenFindUnique token)
          (authorizationToken_findUnique d token))
       (\<lambda>projectOwnerIdByToken.
          case projectOwnerIdByToken of
            None \<Rightarrow> throw (ProjectOwnerNotFound token)
          | Some row \<Rightarrow>
              (case project_userId row of
                 None \<Rightarrow> throw (ProjectNullUserId (project_id row))
               | Some projectOwnerId \<Rightarrow> return projectOwnerId))"

text \<open>The two closures assigned to \<^verbatim>\<open>isLoggedInToBuilder\<close>.\<close>

definition dashboardIsLoggedInToBuilder ::
  "('f, 'b, 'h, 'p) collaborators \<Rightarrow> request \<Rightarrow> 'b capability" where
  "dashboardIsLoggedInToBuilder d request loginBloomFilter pid =
     (let loaded = (case loginBloomFilter of
                      None \<Rightarrow> readLoginSessionBloomFilter d request
                    | Some f \<Rightarrow> f)
      in (bloomFilter_has d loaded pid, Some loaded))"

definition builderIsLoggedInToBuilder ::
  "('f, 'b, 'h, 'p) collaborators \<Rightarrow> request \<Rightarrow> 'b capability" where
  "builderIsLoggedInToBuilder d request loginBloomFilter pid =
     (let parsedUrl = parseBuilderUrl d (url request)
      in (projectId parsedUrl = Some pid, loginBloomFilter))"

text \<open>
  The variables \<^verbatim>\<open>ownerId\<close> and \<^verbatim>\<open>isLoggedInToBuilder\<close> are assigned more than
  once: \<open>ownerId0\<close> and \<open>ownerId1\<close> are the values of the first before and after
  the token lookup, \<open>cap0\<close>, \<open>cap1\<close> and \<open>cap2\<close> the values of the second at its
  declaration, after the dashboard branch and after the builder branch. \<open>loggedIn\<close>
  is \<^verbatim>\<open>sessionData?.userId !== undefined\<close>.
\<close>

definition createAuthorizationContext ::
  "('f, 'b, 'h, 'p) collaborators \<Rightarrow> request \<Rightarrow> 'b authorization io" where
  "createAuthorizationContext d request =
     (if isCanvas d request then throw CanvasAuthorizationError
      else
        and_then (extractAuthFromRequest d request)
          (\<lambda>a.
             let ownerId0 = map_option session_data.userId (sessionData a) in
             and_then
               (case extracted_auth.authToken a of
                  None \<Rightarrow> return ownerId0
                | Some t \<Rightarrow>
                    and_then (projectOwnerByToken d t)
                      (\<lambda>projectOwnerId. return (Some projectOwnerId)))
               (\<lambda>ownerId1.
                  let loggedIn = (map_option session_data.userId (sessionData a) \<noteq> None);
                      cap0 = None;
                      cap1 = (if isDashboard d request \<and> loggedIn
                              then Some (dashboardIsLoggedInToBuilder d request)
                              else cap0);
                      cap2 = (if isBuilder d request \<and> loggedIn
                              then Some (builderIsLoggedInToBuilder d request)
                              else cap1)
                  in return
                       \<lparr> userId = map_option session_data.userId (sessionData a),
                         sessionCreatedAt = map_option createdAt (sessionData a),
                         authToken = extracted_auth.authToken a,
                         isServiceCall = extracted_auth.isServiceCall a,
                         ownerId = ownerId1,
                         isLoggedInToBuilder = cap2 \<rparr>)))"

definition createDomainContext :: "('f, 'b, 'h, 'p) collaborators \<Rightarrow> request \<Rightarrow> 'h" where
  "createDomainContext d request = trpcSharedClient_domain d"

definition getRequestOrigin :: "('f, 'b, 'h, 'p) collaborators \<Rightarrow> string \<Rightarrow> string" where
  "getRequestOrigin d urlStr = origin (URL_new d urlStr)"

definition createDeploymentContext ::
  "('f, 'b, 'h, 'p) collaborators \<Rightarrow> request \<Rightarrow> 'h deployment_context" where
  "createDeploymentContext d request =
     \<lparr> deploymentTrpc = trpcSharedClient_deployment d,
       deployment_context.env =
         \<lparr> BUILDER_ORIGIN = getRequestOrigin d (url request),
           deployment_env.GITHUB_REF_NAME =
             (case static_env.GITHUB_REF_NAME (staticEnv d) of
                None \<Rightarrow> ''undefined'' | Some r \<Rightarrow> r),
           deployment_env.GITHUB_SHA = nullish (static_env.GITHUB_SHA (staticEnv d)) None \<rparr> \<rparr>"

definition createEntriContext :: "('f, 'b, 'h, 'p) collaborators \<Rightarrow> 'h" where
  "createEntriContext d = entryApi d"

definition createUserPlanContext ::
  "('f, 'b, 'h, 'p) collaborators \<Rightarrow> 'b authorization \<Rightarrow> 'f option io" where
  "createUserPlanContext d a =
     (if truthy (ownerId a)
      then (case ownerId a of
              None \<Rightarrow> return None
            | Some oid \<Rightarrow> await (GetUserPlanFeatures oid) (Some (getUserPlanFeatures d oid)))
      else return None)"

subsection \<open>The RPC response cache\<close>

definition MAX_SAFE_INTEGER :: int where
  "MAX_SAFE_INTEGER = 9007199254740991"

text \<open>
  The state of a cache is its \<^verbatim>\<open>Map<string, number>\<close>; the values are integer
  seconds. \<open>createTrpcCache\<close> is the fresh map, \<open>setMaxAge\<close> returns the map after
  the call.
\<close>

definition createTrpcCache :: "string \<rightharpoonup> int" where
  "createTrpcCache = Map.empty"

definition setMaxAge :: "string \<Rightarrow> int \<Rightarrow> (string \<rightharpoonup> int) \<Rightarrow> (string \<rightharpoonup> int)" where
  "setMaxAge path v proceduresMaxAge =
     proceduresMaxAge(path \<mapsto>
       min (case proceduresMaxAge path of None \<Rightarrow> MAX_SAFE_INTEGER | Some old \<Rightarrow> old) v)"

definition getMaxAge :: "string \<Rightarrow> (string \<rightharpoonup> int) \<Rightarrow> int option" where
  "getMaxAge path proceduresMaxAge = proceduresMaxAge path"

definition createPostrestContext :: "('f, 'b, 'h, 'p) collaborators \<Rightarrow> 'h" where
  "createPostrestContext d =
     createClient d (POSTGREST_URL (env d)) (POSTGREST_API_KEY (env d))"

definition createContext ::
  "('f, 'b, 'h, 'p) collaborators \<Rightarrow> request \<Rightarrow> ('f, 'b, 'h) AppContext io" where
  "createContext d request =
     and_then (createAuthorizationContext d request)
       (\<lambda>a. and_then (createUserPlanContext d a)
          (\<lambda>features.
             return \<lparr> authorization = a,
                      domain = createDomainContext d request,
                      deployment = createDeploymentContext d request,
                      entri = createEntriContext d,
                      userPlanFeatures = features,
                      trpcCache = createTrpcCache,
                      postgrest = createPostrestContext d \<rparr>))"

subsection \<open>The dashboard loader\<close>

record ('f, 'p) dashboard_data =
  data_user :: user
  projects :: "'p list"
  projectTemplates :: "'p list"
  data_userPlanFeatures :: 'f
  publisherHost :: string
  imageBaseUrl :: string
  data_origin :: string

definition loader ::
  "('f, 'b, 'h, 'p) collaborators \<Rightarrow> request \<Rightarrow> ('f, 'p) dashboard_data io" where
  "loader d request =
     (if \<not> isDashboard d request then throw Response404
      else if \<not> preventCrossOriginCookie d request then throw CrossOriginCookie
      else if \<not> allowedDestinations d request [''document'', ''empty'']
        then throw DestinationNotAllowed
      else
        and_then (await FindAuthenticatedUser (findAuthenticatedUser d request))
          (\<lambda>found.
             case found of
               None \<Rightarrow>
                 throw (Redirect (loginPath d
                   \<lparr> returnTo = pathname (URL_new d (url request)) \<rparr>))
             | Some usr \<Rightarrow>
                 and_then (createContext d request)
                   (\<lambda>c.
                      and_then (await (ProjectFindMany (user_id usr))
                                  (project_findMany d c (user_id usr)))
                        (\<lambda>ps.
                           and_then (await (ProjectFindManyByIds (PROJECT_TEMPLATES (env d)))
                                       (project_findManyByIds d c (PROJECT_TEMPLATES (env d))))
                             (\<lambda>ts.
                                case userPlanFeatures c of
                                  None \<Rightarrow> throw UserPlanFeaturesNotDefined
                                | Some features \<Rightarrow>
                                    return
                                      \<lparr> data_user = usr,
                                        projects = ps,
                                        projectTemplates = ts,
                                        data_userPlanFeatures = features,
                                        publisherHost = PUBLISHER_HOST (env d),
                                        imageBaseUrl = IMAGE_BASE_URL (env d),
                                        data_origin =
                                          sourceOrigin (parseBuilderUrl d (url request)) \<rparr>)))))"

subsection \<open>Sequences of cache calls\<close>

text \<open>
  A finite sequence of \<^verbatim>\<open>setMaxAge(path, value)\<close> calls on one cache, in order, and
  the values such a sequence records for one path.
\<close>

fun setMaxAge_calls :: "(string \<times> int) list \<Rightarrow> (string \<rightharpoonup> int) \<Rightarrow> (string \<rightharpoonup> int)" where
  "setMaxAge_calls [] m = m"
| "setMaxAge_calls ((path, v) # calls) m = setMaxAge_calls calls (setMaxAge path v m)"

fun recorded :: "string \<Rightarrow> (string \<times> int) list \<Rightarrow> int list" where
  "recorded p [] = []"
| "recorded p ((path, v) # calls) =
     (if path = p then v # recorded p calls else recorded p calls)"

subsection \<open>Example collaborators\<close>

text \<open>
  Concrete services for the examples below: the request classification, the parsed
  URL, the configured secret, the session of both authenticators, the token table and
  the authenticated user are the arguments; the plan of a user is a string that names
  the user, the bloom filter is a list of project ids.
\<close>

definition example_collaborators ::
  "bool \<Rightarrow> bool \<Rightarrow> bool \<Rightarrow> URL \<Rightarrow> string option \<Rightarrow> session_data option \<Rightarrow>
   (string \<times> token_project) list \<Rightarrow> user option \<Rightarrow>
   (string, string list, string, string) collaborators" where
  "example_collaborators canvas builder dashboard u secret session tokens usr =
     \<lparr> isCanvas = (\<lambda>r. canvas),
       isBuilder = (\<lambda>r. builder),
       isDashboard = (\<lambda>r. dashboard),
       URL_new = (\<lambda>s. u),
       env = \<lparr> TRPC_SERVER_API_TOKEN = secret,
               PROJECT_TEMPLATES = [''template-1''],
               PUBLISHER_HOST = ''wstd.work'',
               IMAGE_BASE_URL = ''/cgi/image/'',
               POSTGREST_URL = ''http://localhost:3000'',
               POSTGREST_API_KEY = ''key'' \<rparr>,
       staticEnv = \<lparr> static_env.GITHUB_REF_NAME = None, static_env.GITHUB_SHA = None \<rparr>,
       authenticator_isAuthenticated = (\<lambda>r. session),
       builderAuthenticator_isAuthenticated = (\<lambda>r. session),
       authorizationToken_findUnique = map_of tokens,
       readLoginSessionBloomFilter = (\<lambda>r. []),
       bloomFilter_has = List.member,
       parseBuilderUrl = (\<lambda>s. \<lparr> projectId = Some ''p1'', sourceOrigin = origin u \<rparr>),
       getUserPlanFeatures = (\<lambda>oid. ''plan of '' @ oid),
       trpcSharedClient_domain = ''domain'',
       trpcSharedClient_deployment = ''deployment'',
       entryApi = ''entri'',
       createClient = (\<lambda>a k. a),
       findAuthenticatedUser = (\<lambda>r. usr),
       preventCrossOriginCookie = (\<lambda>r. True),
       allowedDestinations = (\<lambda>r ds. True),
       loginPath = (\<lambda>p. ''/login?returnTo='' @ returnTo p),
       project_findMany = (\<lambda>c uid. []),
       project_findManyByIds = (\<lambda>c ids. ids) \<rparr>"

definition example_url :: "(string \<times> string) list \<Rightarrow> URL" where
  "example_url params =
     \<lparr> pathname = ''/dashboard'', origin = ''https://wstd.dev'', searchParams = params \<rparr>"

definition example_request :: "(string \<times> string) list \<Rightarrow> request" where
  "example_request hs = \<lparr> url = ''https://wstd.dev/dashboard'', headers = hs \<rparr>"

definition alice :: session_data where
  "alice = \<lparr> session_data.userId = ''alice'', createdAt = 1700000000 \<rparr>"

definition bobs_project :: token_project where
  "bobs_project = \<lparr> project_id = ''p1'', project_userId = Some ''bob'' \<rparr>"

definition orphan_project :: token_project where
  "orphan_project = \<lparr> project_id = ''p2'', project_userId = None \<rparr>"

text \<open>A canvas request.\<close>

definition ex_canvas :: "(string, string list, string, string) collaborators" where
  "ex_canvas = example_collaborators True False False (example_url []) None None [] None"

text \<open>A dashboard request without session; the configured secret is \<open>s3cret\<close>.\<close>

definition ex_service :: "(string, string list, string, string) collaborators" where
  "ex_service =
     example_collaborators False False True (example_url []) (Some ''s3cret'') None [] None"

text \<open>The same request on a server with no configured secret.\<close>

definition ex_no_secret :: "(string, string list, string, string) collaborators" where
  "ex_no_secret = example_collaborators False False True (example_url []) None None [] None"

text \<open>
  A dashboard request of the session of alice whose URL carries the token \<open>tok-1\<close> of
  a project of bob.
\<close>

definition ex_delegated :: "(string, string list, string, string) collaborators" where
  "ex_delegated =
     example_collaborators False False True (example_url [(''authToken'', ''tok-1'')]) None
       (Some alice) [(''tok-1'', bobs_project)] None"

text \<open>The same URL without session.\<close>

definition ex_token_only :: "(string, string list, string, string) collaborators" where
  "ex_token_only =
     example_collaborators False False True (example_url [(''authToken'', ''tok-1'')]) None
       None [(''tok-1'', bobs_project)] None"

text \<open>A token that is in no row, and a token of a project without owner.\<close>

definition ex_unknown_token :: "(string, string list, string, string) collaborators" where
  "ex_unknown_token =
     example_collaborators False False True (example_url [(''authToken'', ''tok-9'')]) None
       (Some alice) [(''tok-1'', bobs_project)] None"

definition ex_orphan_token :: "(string, string list, string, string) collaborators" where
  "ex_orphan_token =
     example_collaborators False False True (example_url [(''authToken'', ''tok-2'')]) None
       (Some alice) [(''tok-2'', orphan_project)] None"

text \<open>A builder request of the session of alice; the URL parses to project \<open>p1\<close>.\<close>

definition ex_builder :: "(string, string list, string, string) collaborators" where
  "ex_builder = example_collaborators False True False (example_url []) None (Some alice) [] None"

text \<open>A URL whose query is \<^verbatim>\<open>?authToken=\<close>, on a request that has the header too.\<close>

definition ex_empty_token :: "(string, string list, string, string) collaborators" where
  "ex_empty_token =
     example_collaborators False False True (example_url [(''authToken'', [])]) None None
       [(''tok-1'', bobs_project)] None"

text \<open>A dashboard request with no authenticated user.\<close>

definition ex_anonymous :: "(string, string list, string, string) collaborators" where
  "ex_anonymous = example_collaborators False False True (example_url []) None None [] None"

text \<open>A session whose user id is the empty string.\<close>

definition ex_empty_owner :: "(string, string list, string, string) collaborators" where
  "ex_empty_owner =
     example_collaborators False False True (example_url []) None
       (Some \<lparr> session_data.userId = [], createdAt = 1700000000 \<rparr>) [] None"

lemmas example_defs =
  example_collaborators_def example_url_def example_request_def alice_def bobs_project_def

section \<open>Properties\<close>

subsection \<open>Sequencing\<close>

lemmas io_defs = and_then_def return_def throw_def await_def

lemma and_then_await: "and_then (await c x) f = (c # fst (f x), snd (f x))"
  by (simp add: and_then_def await_def split: prod.splits)

text \<open>What \<open>extractAuthFromRequest\<close> returns for a request that is not canvas.\<close>

lemma extractAuthFromRequest_not_canvas:
  "\<not> isCanvas d request \<Longrightarrow>
   extractAuthFromRequest d request =
     ([if isBuilder d request then BuilderAuthenticatorIsAuthenticated
       else AuthenticatorIsAuthenticated],
      Inr \<lparr> extracted_auth.authToken =
              nullish (searchParams_get (searchParams (URL_new d (url request))) ''authToken'')
                (headers_get (headers request) ''x-auth-token''),
            sessionData =
              (if isBuilder d request then builderAuthenticator_isAuthenticated d request
               else authenticator_isAuthenticated d request),
            extracted_auth.isServiceCall =
              (headers_has (headers request) ''Authorization'' \<and>
               strict_eq_null_undefined (headers_get (headers request) ''Authorization'')
                 (TRPC_SERVER_API_TOKEN (env d))) \<rparr>)"
  by (simp add: extractAuthFromRequest_def and_then_await return_def nullish_def Let_def
        split: option.splits)

lemmas authorization_defs =
  createAuthorizationContext_def extractAuthFromRequest_not_canvas projectOwnerByToken_def
  io_defs Let_def

text \<open>The equations that evaluate the context builder on the examples.\<close>

lemmas eval_defs =
  createAuthorizationContext_def extractAuthFromRequest_def projectOwnerByToken_def
  io_defs Let_def example_defs nullish_def searchParams_get_def headers_get_def
  headers_has_def strict_eq_null_undefined_def

subsection \<open>Canvas requests\<close>

text \<open>
  C8. For a request classified as canvas, auth extraction and authorization context
  construction both throw the canvas error, before any service is called; neither
  returns a value.
\<close>

theorem canvas_never_authorized:
  "isCanvas d request \<Longrightarrow>
   extractAuthFromRequest d request = ([], Inl CanvasAuthorizationError) \<and>
   createAuthorizationContext d request = ([], Inl CanvasAuthorizationError)"
  by (simp add: extractAuthFromRequest_def createAuthorizationContext_def throw_def)

theorem canvas_never_authorized_witness:
  "isCanvas ex_canvas (example_request []) \<and>
   extractAuthFromRequest ex_canvas (example_request []) =
     ([], Inl CanvasAuthorizationError) \<and>
   createAuthorizationContext ex_canvas (example_request []) =
     ([], Inl CanvasAuthorizationError)"
proof -
  have c: "isCanvas ex_canvas (example_request [])"
    by (simp add: ex_canvas_def example_defs)
  show ?thesis
    using c canvas_never_authorized [OF c] by simp
qed

subsection \<open>Service calls\<close>

text \<open>
  C3. For a request that is not canvas, auth extraction returns, and its flag
  \<open>isServiceCall\<close> is true exactly when the request has an \<^verbatim>\<open>Authorization\<close> header
  whose value is the configured secret; with no configured secret the flag is false.
\<close>

theorem service_call_iff_secret:
  "\<not> isCanvas d request \<Longrightarrow>
   \<exists>tr a. extractAuthFromRequest d request = (tr, Inr a) \<and>
     (extracted_auth.isServiceCall a \<longleftrightarrow>
        (\<exists>v. headers_get (headers request) ''Authorization'' = Some v \<and>
             TRPC_SERVER_API_TOKEN (env d) = Some v)) \<and>
     (TRPC_SERVER_API_TOKEN (env d) = None \<longrightarrow> \<not> extracted_auth.isServiceCall a)"
  by (auto simp add: extractAuthFromRequest_not_canvas headers_has_def headers_get_def
        strict_eq_null_undefined_def split: option.splits)

theorem service_call_iff_secret_witness:
  "\<not> isCanvas ex_service (example_request [(''Authorization'', ''s3cret'')]) \<and>
   extracted_auth.isServiceCall (projr (snd (extractAuthFromRequest ex_service
     (example_request [(''Authorization'', ''s3cret'')])))) \<and>
   \<not> isCanvas ex_no_secret (example_request [(''Authorization'', ''s3cret'')]) \<and>
   TRPC_SERVER_API_TOKEN (env ex_no_secret) = None \<and>
   \<not> extracted_auth.isServiceCall (projr (snd (extractAuthFromRequest ex_no_secret
     (example_request [(''Authorization'', ''s3cret'')]))))"
proof -
  have c: "\<not> isCanvas ex_service (example_request [(''Authorization'', ''s3cret'')])"
    by (simp add: ex_service_def example_defs)
  have h: "headers_get (headers (example_request [(''Authorization'', ''s3cret'')]))
             ''Authorization'' = Some ''s3cret''"
    by (simp add: example_defs headers_get_def)
  have s: "TRPC_SERVER_API_TOKEN (env ex_service) = Some ''s3cret''"
    by (simp add: ex_service_def example_defs)
  have c': "\<not> isCanvas ex_no_secret (example_request [(''Authorization'', ''s3cret'')])"
    by (simp add: ex_no_secret_def example_defs)
  have s': "TRPC_SERVER_API_TOKEN (env ex_no_secret) = None"
    by (simp add: ex_no_secret_def example_defs)
  from service_call_iff_secret [OF c] service_call_iff_secret [OF c'] h s s' c c'
  show ?thesis by auto
qed

subsection \<open>Ownership by token\<close>

text \<open>
  C1. For a request that is not canvas, when the extracted auth token resolves to a
  project \<open>P\<close> whose owner is \<open>U\<close>, the authorization context is returned, its
  \<open>ownerId\<close> is \<open>U\<close>, and its \<open>userId\<close> is the user id of the session (undefined
  without session), whatever the token.
\<close>

theorem token_owner_overrides_session_owner:
  "\<not> isCanvas d request \<Longrightarrow>
   extractAuthFromRequest d request = (tr0, Inr a) \<Longrightarrow>
   extracted_auth.authToken a = Some t \<Longrightarrow>
   authorizationToken_findUnique d t = Some P \<Longrightarrow>
   project_userId P = Some U \<Longrightarrow>
   \<exists>tr ctx. createAuthorizationContext d request = (tr, Inr ctx) \<and>
     ownerId ctx = Some U \<and>
     userId ctx = map_option session_data.userId (sessionData a)"
  by (simp add: createAuthorizationContext_def projectOwnerByToken_def io_defs Let_def)

theorem token_owner_overrides_session_owner_witness:
  "\<not> isCanvas ex_delegated (example_request []) \<and>
   extractAuthFromRequest ex_delegated (example_request []) =
     ([AuthenticatorIsAuthenticated],
      Inr \<lparr> extracted_auth.authToken = Some ''tok-1'', sessionData = Some alice,
            extracted_auth.isServiceCall = False \<rparr>) \<and>
   authorizationToken_findUnique ex_delegated ''tok-1'' = Some bobs_project \<and>
   project_userId bobs_project = Some ''bob'' \<and>
   ownerId (projr (snd (createAuthorizationContext ex_delegated (example_request [])))) =
     Some ''bob'' \<and>
   userId (projr (snd (createAuthorizationContext ex_delegated (example_request [])))) =
     Some ''alice''"
proof -
  have c: "\<not> isCanvas ex_delegated (example_request [])"
    by (simp add: ex_delegated_def example_defs)
  have e: "extractAuthFromRequest ex_delegated (example_request []) =
     ([AuthenticatorIsAuthenticated],
      Inr \<lparr> extracted_auth.authToken = Some ''tok-1'', sessionData = Some alice,
            extracted_auth.isServiceCall = False \<rparr>)"
    by (simp add: extractAuthFromRequest_not_canvas [OF c])
       (simp add: ex_delegated_def example_defs nullish_def searchParams_get_def
          headers_get_def headers_has_def)
  have t: "extracted_auth.authToken
      \<lparr> extracted_auth.authToken = Some ''tok-1'', sessionData = Some alice,
        extracted_auth.isServiceCall = False \<rparr> = Some ''tok-1''"
    by simp
  have f: "authorizationToken_findUnique ex_delegated ''tok-1'' = Some bobs_project"
    by (simp add: ex_delegated_def example_collaborators_def)
  have u: "project_userId bobs_project = Some ''bob''"
    by (simp add: bobs_project_def)
  from token_owner_overrides_session_owner [OF c e t f u]
  show ?thesis
    using c e f u by (auto simp add: alice_def)
qed

text \<open>
  C2. For a request that carries an auth token (in the query, else in the header
  \<^verbatim>\<open>x-auth-token\<close>), when the token lookup returns no row or a project whose owner is
  null, authorization context construction throws: the canvas error for a canvas
  request, else the error of the missing row or of the null owner. It returns no
  context.
\<close>

theorem unresolved_token_raises:
  "nullish (searchParams_get (searchParams (URL_new d (url request))) ''authToken'')
     (headers_get (headers request) ''x-auth-token'') = Some t \<Longrightarrow>
   authorizationToken_findUnique d t = None \<or>
   (\<exists>P. authorizationToken_findUnique d t = Some P \<and> project_userId P = None) \<Longrightarrow>
   snd (createAuthorizationContext d request) =
     Inl (if isCanvas d request then CanvasAuthorizationError
          else case authorizationToken_findUnique d t of
                 None \<Rightarrow> ProjectOwnerNotFound t
               | Some P \<Rightarrow> ProjectNullUserId (project_id P))"
  by (auto simp add: authorization_defs)

theorem unresolved_token_raises_witness:
  "nullish (searchParams_get (searchParams
       (URL_new ex_unknown_token (url (example_request [])))) ''authToken'')
     (headers_get (headers (example_request [])) ''x-auth-token'') = Some ''tok-9'' \<and>
   authorizationToken_findUnique ex_unknown_token ''tok-9'' = None \<and>
   snd (createAuthorizationContext ex_unknown_token (example_request [])) =
     Inl (ProjectOwnerNotFound ''tok-9'') \<and>
   nullish (searchParams_get (searchParams
       (URL_new ex_orphan_token (url (example_request [])))) ''authToken'')
     (headers_get (headers (example_request [])) ''x-auth-token'') = Some ''tok-2'' \<and>
   authorizationToken_findUnique ex_orphan_token ''tok-2'' = Some orphan_project \<and>
   project_userId orphan_project = None \<and>
   snd (createAuthorizationContext ex_orphan_token (example_request [])) =
     Inl (ProjectNullUserId ''p2'')"
proof -
  have t: "nullish (searchParams_get (searchParams
       (URL_new ex_unknown_token (url (example_request [])))) ''authToken'')
     (headers_get (headers (example_request [])) ''x-auth-token'') = Some ''tok-9''"
    by (simp add: ex_unknown_token_def example_defs nullish_def searchParams_get_def)
  have f: "authorizationToken_findUnique ex_unknown_token ''tok-9'' = None"
    by (simp add: ex_unknown_token_def example_collaborators_def)
  have c: "\<not> isCanvas ex_unknown_token (example_request [])"
    by (simp add: ex_unknown_token_def example_defs)
  have t': "nullish (searchParams_get (searchParams
       (URL_new ex_orphan_token (url (example_request [])))) ''authToken'')
     (headers_get (headers (example_request [])) ''x-auth-token'') = Some ''tok-2''"
    by (simp add: ex_orphan_token_def example_defs nullish_def searchParams_get_def)
  have f': "authorizationToken_findUnique ex_orphan_token ''tok-2'' = Some orphan_project"
    by (simp add: ex_orphan_token_def example_collaborators_def)
  have u': "project_userId orphan_project = None"
    by (simp add: orphan_project_def)
  have c': "\<not> isCanvas ex_orphan_token (example_request [])"
    by (simp add: ex_orphan_token_def example_defs)
  have 1: "snd (createAuthorizationContext ex_unknown_token (example_request [])) =
     Inl (ProjectOwnerNotFound ''tok-9'')"
    using unresolved_token_raises [OF t] f c by simp
  have 2: "snd (createAuthorizationContext ex_orphan_token (example_request [])) =
     Inl (ProjectNullUserId ''p2'')"
    using unresolved_token_raises [OF t'] f' u' c' by (simp add: orphan_project_def)
  show ?thesis
    using t f 1 t' f' u' 2 by simp
qed

subsection \<open>The capability \<open>isLoggedInToBuilder\<close>\<close>

text \<open>
  C4. For a builder request with a logged-in session, the capability of the
  constructed authorization context answers true for a project id exactly when it is
  the project id parsed from the URL of the request, whatever the content of the
  bloom filter variable.
\<close>

theorem builder_capability_exact:
  "isBuilder d request \<Longrightarrow>
   createAuthorizationContext d request = (tr, Inr ctx) \<Longrightarrow>
   userId ctx \<noteq> None \<Longrightarrow>
   \<exists>f. isLoggedInToBuilder ctx = Some f \<and>
     (\<forall>cell X. fst (f cell X) \<longleftrightarrow> projectId (parseBuilderUrl d (url request)) = Some X)"
  by (cases "isCanvas d request")
     (auto simp add: authorization_defs builderIsLoggedInToBuilder_def
        split: option.splits)

theorem builder_capability_exact_witness:
  "isBuilder ex_builder (example_request []) \<and>
   userId (projr (snd (createAuthorizationContext ex_builder (example_request [])))) \<noteq> None \<and>
   projectId (parseBuilderUrl ex_builder (url (example_request []))) = Some ''p1'' \<and>
   (\<exists>f. isLoggedInToBuilder
          (projr (snd (createAuthorizationContext ex_builder (example_request [])))) = Some f \<and>
        fst (f None ''p1'') \<and> \<not> fst (f None ''p2'') \<and> \<not> fst (f None ''p11''))"
proof -
  have b: "isBuilder ex_builder (example_request [])"
    by (simp add: ex_builder_def example_defs)
  have c: "\<not> isCanvas ex_builder (example_request [])"
    by (simp add: ex_builder_def example_defs)
  have r: "createAuthorizationContext ex_builder (example_request []) =
     (fst (createAuthorizationContext ex_builder (example_request [])),
      Inr (projr (snd (createAuthorizationContext ex_builder (example_request [])))))"
    by (simp add: ex_builder_def eval_defs)
  have u: "userId (projr (snd (createAuthorizationContext ex_builder (example_request []))))
             \<noteq> None"
    by (simp add: ex_builder_def eval_defs)
  have p: "projectId (parseBuilderUrl ex_builder (url (example_request []))) = Some ''p1''"
    by (simp add: ex_builder_def example_defs)
  from builder_capability_exact [OF b r u] p
  show ?thesis
    using b u by auto
qed

text \<open>
  C5. When a returned authorization context belongs to a request that is neither a
  dashboard request with a logged-in session nor a builder request with a logged-in
  session, its capability \<open>isLoggedInToBuilder\<close> is undefined.
\<close>

theorem capability_undefined_otherwise:
  "createAuthorizationContext d request = (tr, Inr ctx) \<Longrightarrow>
   \<not> (isDashboard d request \<and> userId ctx \<noteq> None) \<Longrightarrow>
   \<not> (isBuilder d request \<and> userId ctx \<noteq> None) \<Longrightarrow>
   isLoggedInToBuilder ctx = None"
  by (cases "isCanvas d request")
     (auto simp add: authorization_defs split: option.splits)

theorem capability_undefined_otherwise_witness:
  "userId (projr (snd (createAuthorizationContext ex_token_only (example_request [])))) = None \<and>
   ownerId (projr (snd (createAuthorizationContext ex_token_only (example_request [])))) =
     Some ''bob'' \<and>
   isLoggedInToBuilder
     (projr (snd (createAuthorizationContext ex_token_only (example_request [])))) = None"
proof -
  have c: "\<not> isCanvas ex_token_only (example_request [])"
    by (simp add: ex_token_only_def example_defs)
  have r: "createAuthorizationContext ex_token_only (example_request []) =
     (fst (createAuthorizationContext ex_token_only (example_request [])),
      Inr (projr (snd (createAuthorizationContext ex_token_only (example_request [])))))"
    by (simp add: ex_token_only_def eval_defs)
  have u: "userId (projr (snd (createAuthorizationContext ex_token_only (example_request []))))
             = None"
    by (simp add: ex_token_only_def eval_defs)
  have o: "ownerId (projr (snd (createAuthorizationContext ex_token_only (example_request []))))
             = Some ''bob''"
    by (simp add: ex_token_only_def eval_defs)
  from capability_undefined_otherwise [OF r] u o
  show ?thesis by simp
qed

subsection \<open>The empty token\<close>

text \<open>
  C10. For a request that is not canvas and whose URL has the query parameter
  \<^verbatim>\<open>authToken\<close> with the empty string as value, auth extraction returns the empty
  string as \<open>authToken\<close>, whatever the header \<^verbatim>\<open>x-auth-token\<close>; authorization
  context construction then calls the token lookup for the empty string, and throws
  when that lookup finds no row.
\<close>

theorem empty_query_token_is_looked_up:
  "\<not> isCanvas d request \<Longrightarrow>
   searchParams_get (searchParams (URL_new d (url request))) ''authToken'' = Some [] \<Longrightarrow>
   (\<exists>tr a. extractAuthFromRequest d request = (tr, Inr a) \<and>
      extracted_auth.authToken a = Some []) \<and>
   AuthorizationTokenFindUnique [] \<in> set (fst (createAuthorizationContext d request)) \<and>
   (authorizationToken_findUnique d [] = None \<longrightarrow>
      snd (createAuthorizationContext d request) = Inl (ProjectOwnerNotFound []))"
  by (auto simp add: authorization_defs nullish_def split: option.splits)

theorem empty_query_token_is_looked_up_witness:
  "\<not> isCanvas ex_empty_token (example_request [(''x-auth-token'', ''tok-1'')]) \<and>
   searchParams_get (searchParams (URL_new ex_empty_token
     (url (example_request [(''x-auth-token'', ''tok-1'')])))) ''authToken'' = Some [] \<and>
   headers_get (headers (example_request [(''x-auth-token'', ''tok-1'')])) ''x-auth-token'' =
     Some ''tok-1'' \<and>
   extracted_auth.authToken (projr (snd (extractAuthFromRequest ex_empty_token
     (example_request [(''x-auth-token'', ''tok-1'')])))) = Some [] \<and>
   AuthorizationTokenFindUnique [] \<in> set (fst (createAuthorizationContext ex_empty_token
     (example_request [(''x-auth-token'', ''tok-1'')]))) \<and>
   snd (createAuthorizationContext ex_empty_token
     (example_request [(''x-auth-token'', ''tok-1'')])) = Inl (ProjectOwnerNotFound [])"
proof -
  have c: "\<not> isCanvas ex_empty_token (example_request [(''x-auth-token'', ''tok-1'')])"
    by (simp add: ex_empty_token_def example_defs)
  have q: "searchParams_get (searchParams (URL_new ex_empty_token
     (url (example_request [(''x-auth-token'', ''tok-1'')])))) ''authToken'' = Some []"
    by (simp add: ex_empty_token_def example_defs searchParams_get_def)
  have h: "headers_get (headers (example_request [(''x-auth-token'', ''tok-1'')]))
     ''x-auth-token'' = Some ''tok-1''"
    by (simp add: example_defs headers_get_def)
  have f: "authorizationToken_findUnique ex_empty_token [] = None"
    by (simp add: ex_empty_token_def example_collaborators_def)
  from empty_query_token_is_looked_up [OF c q] f
  show ?thesis
    using c q h by auto
qed

subsection \<open>The loader without authenticated user\<close>

text \<open>
  C9. For a dashboard request that passes the cross-origin check and the destination
  check and has no authenticated user, the loader throws the redirect to
  \<^verbatim>\<open>loginPath({returnTo: url.pathname})\<close>. The only service it has called is
  \<^verbatim>\<open>findAuthenticatedUser\<close>: no session lookup, token lookup or plan lookup of the
  context builder, and no project query.
\<close>

theorem unauthenticated_dashboard_redirects:
  "isDashboard d request \<Longrightarrow>
   preventCrossOriginCookie d request \<Longrightarrow>
   allowedDestinations d request [''document'', ''empty''] \<Longrightarrow>
   findAuthenticatedUser d request = None \<Longrightarrow>
   loader d request =
     ([FindAuthenticatedUser],
      Inl (Redirect (loginPath d \<lparr> returnTo = pathname (URL_new d (url request)) \<rparr>)))"
  by (simp add: loader_def io_defs)

theorem unauthenticated_dashboard_redirects_witness:
  "isDashboard ex_anonymous (example_request []) \<and>
   preventCrossOriginCookie ex_anonymous (example_request []) \<and>
   allowedDestinations ex_anonymous (example_request []) [''document'', ''empty''] \<and>
   findAuthenticatedUser ex_anonymous (example_request []) = None \<and>
   loader ex_anonymous (example_request []) =
     ([FindAuthenticatedUser], Inl (Redirect ''/login?returnTo=/dashboard''))"
proof -
  have 1: "isDashboard ex_anonymous (example_request [])"
    by (simp add: ex_anonymous_def example_defs)
  have 2: "preventCrossOriginCookie ex_anonymous (example_request [])"
    by (simp add: ex_anonymous_def example_defs)
  have 3: "allowedDestinations ex_anonymous (example_request []) [''document'', ''empty'']"
    by (simp add: ex_anonymous_def example_defs)
  have 4: "findAuthenticatedUser ex_anonymous (example_request []) = None"
    by (simp add: ex_anonymous_def example_defs)
  have 5: "loginPath ex_anonymous
      \<lparr> returnTo = pathname (URL_new ex_anonymous (url (example_request []))) \<rparr> =
      ''/login?returnTo=/dashboard''"
    by (simp add: ex_anonymous_def example_defs)
  from unauthenticated_dashboard_redirects [OF 1 2 3 4] 5
  show ?thesis
    using 1 2 3 4 by simp
qed

subsection \<open>The RPC response cache\<close>

lemma setMaxAge_calls_lookup:
  "setMaxAge_calls calls m p =
     (if recorded p calls = [] then m p
      else Some (min (case m p of None \<Rightarrow> MAX_SAFE_INTEGER | Some old \<Rightarrow> old)
                   (Min (set (recorded p calls)))))"
proof (induction calls arbitrary: m)
  case Nil
  then show ?case by simp
next
  case (Cons c calls)
  obtain path v where c: "c = (path, v)" by (cases c)
  show ?case
  proof (cases "path = p")
    case True
    then show ?thesis
      by (simp add: c Cons.IH setMaxAge_def min.assoc)
  next
    case False
    then show ?thesis
      by (simp add: c Cons.IH setMaxAge_def)
  qed
qed

text \<open>
  C6, as the code has it. After any finite sequence of \<^verbatim>\<open>setMaxAge\<close> calls on a
  fresh cache, \<^verbatim>\<open>getMaxAge(p)\<close> is undefined when no call was for \<open>p\<close>, and is
  otherwise the minimum of \<^verbatim>\<open>Number.MAX_SAFE_INTEGER\<close> and of the values recorded for
  \<open>p\<close>; it depends on the set of those values only, not on their order.
\<close>

theorem trpcCache_keeps_capped_minimum:
  "getMaxAge p (setMaxAge_calls calls createTrpcCache) =
     (if recorded p calls = [] then None
      else Some (min MAX_SAFE_INTEGER (Min (set (recorded p calls)))))"
  by (simp add: getMaxAge_def setMaxAge_calls_lookup createTrpcCache_def)

theorem trpcCache_keeps_capped_minimum_witness:
  "getMaxAge ''project.list'' (setMaxAge_calls
      [(''project.list'', 50), (''project.list'', 10), (''other'', 3), (''project.list'', 80)]
      createTrpcCache) = Some 10 \<and>
   getMaxAge ''never.set'' (setMaxAge_calls
      [(''project.list'', 50), (''project.list'', 10), (''other'', 3), (''project.list'', 80)]
      createTrpcCache) = None"
  using trpcCache_keeps_capped_minimum [of "''project.list''"
      "[(''project.list'', 50), (''project.list'', 10), (''other'', 3), (''project.list'', 80)]"]
    trpcCache_keeps_capped_minimum [of "''never.set''"
      "[(''project.list'', 50), (''project.list'', 10), (''other'', 3), (''project.list'', 80)]"]
  by (simp add: MAX_SAFE_INTEGER_def)

text \<open>
  C6 as stated fails: one call with the value \<open>2 ^ 53\<close>, the integer after
  \<^verbatim>\<open>Number.MAX_SAFE_INTEGER\<close>, leaves \<open>2 ^ 53 - 1\<close> in the cache, which is not the
  minimum of the values recorded.
\<close>

theorem trpcCache_minimum_counterexample:
  "getMaxAge ''project.list''
     (setMaxAge ''project.list'' 9007199254740992 createTrpcCache) = Some 9007199254740991 \<and>
   Min (set [9007199254740992 :: int]) = 9007199254740992"
  by (simp add: getMaxAge_def setMaxAge_def createTrpcCache_def MAX_SAFE_INTEGER_def)

subsection \<open>Plan features\<close>

text \<open>
  C7, as the code has it. The \<open>userPlanFeatures\<close> of a constructed context is the
  plan-features lookup for the \<open>ownerId\<close> of its authorization context when that id
  is a non-empty string, and is undefined when the id is undefined or the empty
  string.
\<close>

theorem plan_features_of_truthy_owner:
  "createContext d request = (tr, Inr c) \<Longrightarrow>
   userPlanFeatures c =
     (case ownerId (authorization c) of
        None \<Rightarrow> None
      | Some oid \<Rightarrow> if oid = [] then None else Some (getUserPlanFeatures d oid))"
  by (auto simp add: createContext_def createUserPlanContext_def truthy_def io_defs
        split: option.splits prod.splits sum.splits if_splits)

theorem plan_features_of_truthy_owner_witness:
  "ownerId (authorization (projr (snd (createContext ex_delegated (example_request []))))) =
     Some ''bob'' \<and>
   userPlanFeatures (projr (snd (createContext ex_delegated (example_request [])))) =
     Some ''plan of bob'' \<and>
   GetUserPlanFeatures ''bob'' \<in> set (fst (createContext ex_delegated (example_request [])))"
proof -
  have r: "createContext ex_delegated (example_request []) =
     (fst (createContext ex_delegated (example_request [])),
      Inr (projr (snd (createContext ex_delegated (example_request [])))))"
    by (simp add: ex_delegated_def createContext_def createUserPlanContext_def truthy_def
          eval_defs)
  have o: "ownerId (authorization
      (projr (snd (createContext ex_delegated (example_request []))))) = Some ''bob''"
    by (simp add: ex_delegated_def createContext_def createUserPlanContext_def truthy_def
          eval_defs)
  have g: "getUserPlanFeatures ex_delegated ''bob'' = ''plan of bob''"
    by (simp add: ex_delegated_def example_defs)
  have t: "GetUserPlanFeatures ''bob'' \<in>
      set (fst (createContext ex_delegated (example_request [])))"
    by (simp add: ex_delegated_def createContext_def createUserPlanContext_def truthy_def
          eval_defs)
  from plan_features_of_truthy_owner [OF r] o g t
  show ?thesis by simp
qed

text \<open>
  C7 as stated fails: for a session whose user id is the empty string the context is
  constructed with that id as \<open>ownerId\<close>, an owner id was resolved, and
  \<open>userPlanFeatures\<close> is undefined with no lookup made.
\<close>

theorem plan_features_counterexample:
  "\<not> isl (snd (createContext ex_empty_owner (example_request []))) \<and>
   ownerId (authorization (projr (snd (createContext ex_empty_owner (example_request []))))) =
     Some [] \<and>
   userPlanFeatures (projr (snd (createContext ex_empty_owner (example_request [])))) = None \<and>
   getUserPlanFeatures ex_empty_owner [] = ''plan of '' \<and>
   fst (createContext ex_empty_owner (example_request [])) = [AuthenticatorIsAuthenticated]"
  by (simp add: ex_empty_owner_def createContext_def createUserPlanContext_def truthy_def
        eval_defs)

end
